theory Spec2Isabelle
  imports Main "HOL-Library.Word"
begin

unbundle bit_operations_syntax

section \<open>Data model of \<open>runtime/oat_quick_method_header.h\<close>\<close>

text \<open>
  \<open>uint32_t\<close> is a 32-bit word. \<open>uintptr_t\<close> and every pointer are words of the
  target's pointer width, which is left as the type parameter \<open>'a\<close> (32 on ARM and x86,
  64 on ARM64 and x86-64). All arithmetic on them wraps, as unsigned C++ arithmetic does.
\<close>

type_synonym uint32_t = "32 word"

text \<open>
  Modelled from the spec: the enumeration \<open>InstructionSet\<close> is declared in
  \<open>arch/instruction_set.h\<close>, which is not among the sources. The spec has "a small
  closed set of tagged variants (one per supported instruction set)". The header only
  tells \<open>kArm\<close> and \<open>kThumb2\<close> from the rest; the remaining constructors stand for the
  other supported targets.
\<close>

datatype InstructionSet =
  kNone | kArm | kArm64 | kThumb2 | kX86 | kX86_64 | kMips | kMips64

text \<open>
  Modelled from the spec: the macros \<open>CHECK\<close> and \<open>DCHECK\<close>, the constant \<open>kRuntimeISA\<close>
  and the function \<open>GetInstructionSetAlignment\<close> are not among the sources. What the
  header reads of them is a compile-time configuration, taken as a parameter:
  \<^item> \<open>kEnableDChecks\<close>: whether \<open>DCHECK\<close>s are compiled in. \<open>CHECK\<close> aborts in every
    build; \<open>DCHECK\<close> is what the spec calls the "debug-only invariant checks" of "a
    debug-build-only assertion layer", and a release build does not even evaluate its
    condition;
  \<^item> \<open>kRuntimeISA\<close>: the instruction set the runtime is built for, "a static,
    compile-time-selected policy";
  \<^item> \<open>kInstructionSetAlignment\<close>: the value of
    \<open>GetInstructionSetAlignment(kRuntimeISA)\<close>, the "minimum code alignment".
\<close>

record build =
  kEnableDChecks :: bool
  kRuntimeISA :: InstructionSet
  kInstructionSetAlignment :: nat

text \<open>The two ways a call can end the process instead of returning.\<close>

datatype abort = CHECK_failed | DCHECK_failed

text \<open>
  An \<open>OatQuickMethodHeader\<close> object: the address it lives at (\<open>this\<close>) and its two
  stored fields. The third member, \<open>uint8_t code_[0]\<close>, stores nothing: it only names
  the address right after the two packed 32-bit fields. Isabelle accepts no name that
  ends in an underscore, so the members \<open>vmap_table_offset_\<close>, \<open>code_size_\<close> and
  \<open>code_\<close> are written without it.
\<close>

record (overloaded) 'a OatQuickMethodHeader =
  this_ptr :: "'a word"
  vmap_table_offset :: uint32_t
  code_size :: uint32_t

definition kShouldDeoptimizeMask :: uint32_t where
  "kShouldDeoptimizeMask = 0x80000000"

definition kCodeSizeMask :: uint32_t where
  "kCodeSizeMask = NOT kShouldDeoptimizeMask"

text \<open>\<open>OFFSETOF_MEMBER(OatQuickMethodHeader, code_)\<close>: two packed \<open>uint32_t\<close> fields.\<close>

definition OFFSETOF_MEMBER_code :: "'a::len word" where
  "OFFSETOF_MEMBER_code = 8"

text \<open>The member \<open>code_\<close> used as a pointer: the address of the first code byte.\<close>

definition code :: "'a::len OatQuickMethodHeader \<Rightarrow> 'a word" where
  "code h = this_ptr h + OFFSETOF_MEMBER_code"

section \<open>Helpers declared outside the header\<close>

text \<open>
  Modelled from the spec: \<open>IsAlignedParam\<close> (\<open>base/bit_utils.h\<close>) is not among the
  sources. The spec asks that the address "satisfies the platform's minimum code
  alignment": the address is a multiple of the alignment.
\<close>

definition IsAlignedParam :: "'a::len word \<Rightarrow> nat \<Rightarrow> bool" where
  "IsAlignedParam x n = (n dvd unat x)"

text \<open>
  Modelled from the spec: \<open>EntryPointToCodePointer\<close> (\<open>base/utils.h\<close>) is not among the
  sources. The spec: an entry point "may carry an instruction-set-specific low-bit tag";
  locating from an entry point "must first strip the tag to obtain the true code
  pointer". Stripping clears the low bit.
\<close>

definition EntryPointToCodePointer :: "'a::len word \<Rightarrow> 'a word" where
  "EntryPointToCodePointer entry_point = entry_point AND NOT 1"

section \<open>The operations of \<open>OatQuickMethodHeader\<close>\<close>

definition FromCodePointer :: "build \<Rightarrow> 'a::len word \<Rightarrow> abort + 'a word" where
  "FromCodePointer b code_ptr =
     (let code = code_ptr;
          header = code - OFFSETOF_MEMBER_code
      in if kEnableDChecks b \<and>
            \<not> (IsAlignedParam code (kInstructionSetAlignment b) \<or>
               IsAlignedParam header (kInstructionSetAlignment b))
         then Inl DCHECK_failed
         else Inr header)"

definition FromEntryPoint :: "build \<Rightarrow> 'a::len word \<Rightarrow> abort + 'a word" where
  "FromEntryPoint b entry_point = FromCodePointer b (EntryPointToCodePointer entry_point)"

definition GetCodeSize :: "'a::len OatQuickMethodHeader \<Rightarrow> abort + uint32_t" where
  "GetCodeSize h =
     (if code_size h = 0xFFFFFFFF then Inl CHECK_failed
      else Inr (code_size h AND kCodeSizeMask))"

text \<open>
  \<open>GetCodeSize() != 0 && vmap_table_offset_ != 0\<close>: the left operand is evaluated
  first, so its abort comes before anything else.
\<close>

definition IsOptimized :: "'a::len OatQuickMethodHeader \<Rightarrow> abort + bool" where
  "IsOptimized h =
     (case GetCodeSize h of
        Inl e \<Rightarrow> Inl e
      | Inr s \<Rightarrow> Inr (s \<noteq> 0 \<and> vmap_table_offset h \<noteq> 0))"

text \<open>\<open>DCHECK(IsOptimized())\<close>: in a debug build the call is made and must give true.\<close>

definition DCHECK_IsOptimized :: "build \<Rightarrow> 'a::len OatQuickMethodHeader \<Rightarrow> abort + unit" where
  "DCHECK_IsOptimized b h =
     (if kEnableDChecks b
      then (case IsOptimized h of
              Inl e \<Rightarrow> Inl e
            | Inr ok \<Rightarrow> if ok then Inr () else Inl DCHECK_failed)
      else Inr ())"

text \<open>The \<open>const\<close> overload.\<close>

definition GetOptimizedCodeInfoPtr_const ::
    "build \<Rightarrow> 'a::len OatQuickMethodHeader \<Rightarrow> abort + 'a word" where
  "GetOptimizedCodeInfoPtr_const b h =
     (case DCHECK_IsOptimized b h of
        Inl e \<Rightarrow> Inl e
      | Inr _ \<Rightarrow> Inr (code h - ucast (vmap_table_offset h)))"

text \<open>The overload on a mutable header.\<close>

definition GetOptimizedCodeInfoPtr ::
    "build \<Rightarrow> 'a::len OatQuickMethodHeader \<Rightarrow> abort + 'a word" where
  "GetOptimizedCodeInfoPtr b h =
     (case DCHECK_IsOptimized b h of
        Inl e \<Rightarrow> Inl e
      | Inr _ \<Rightarrow> Inr (code h - ucast (vmap_table_offset h)))"

definition GetCode :: "'a::len OatQuickMethodHeader \<Rightarrow> 'a word" where
  "GetCode h = code h"

definition GetVmapTableOffset :: "'a::len OatQuickMethodHeader \<Rightarrow> uint32_t" where
  "GetVmapTableOffset h = vmap_table_offset h"

definition SetVmapTableOffset ::
    "'a::len OatQuickMethodHeader \<Rightarrow> uint32_t \<Rightarrow> 'a OatQuickMethodHeader" where
  "SetVmapTableOffset h offset = h\<lparr>vmap_table_offset := offset\<rparr>"

text \<open>The null pointer is the address 0.\<close>

definition GetVmapTable :: "'a::len OatQuickMethodHeader \<Rightarrow> abort + 'a word" where
  "GetVmapTable h =
     (case IsOptimized h of
        Inl e \<Rightarrow> Inl e
      | Inr opt \<Rightarrow>
          if opt then Inl CHECK_failed
          else Inr (if vmap_table_offset h = 0 then 0
                    else code h - ucast (vmap_table_offset h)))"

text \<open>
  The local \<open>code_start\<close> of \<open>Contains\<close>, after the adjustment for ARM. Here and in
  \<open>GetEntryPoint\<close> a \<open>static_assert\<close> refuses to compile a runtime whose \<open>kRuntimeISA\<close> is
  \<open>kThumb2\<close>; the comparison with \<open>kArm\<close> is all that is left at run time.
\<close>

definition code_start :: "build \<Rightarrow> 'a::len OatQuickMethodHeader \<Rightarrow> 'a word" where
  "code_start b h = (if kRuntimeISA b = kArm then code h + 1 else code h)"

text \<open>
  \<open>code_start <= pc && pc <= (code_start + GetCodeSize())\<close>: \<open>&&\<close> evaluates its right
  operand, and with it \<open>GetCodeSize()\<close>, only when the left one is true.
\<close>

definition Contains :: "build \<Rightarrow> 'a::len OatQuickMethodHeader \<Rightarrow> 'a word \<Rightarrow> abort + bool" where
  "Contains b h pc =
     (if code_start b h \<le> pc
      then (case GetCodeSize h of
              Inl e \<Rightarrow> Inl e
            | Inr s \<Rightarrow> Inr (pc \<le> code_start b h + ucast s))
      else Inr False)"

definition GetEntryPoint :: "build \<Rightarrow> 'a::len OatQuickMethodHeader \<Rightarrow> 'a word" where
  "GetEntryPoint b h = (if kRuntimeISA b = kArm then code h OR 1 else code h)"

definition NativeQuickPcOffset ::
    "build \<Rightarrow> 'a::len OatQuickMethodHeader \<Rightarrow> 'a word \<Rightarrow> 'a word" where
  "NativeQuickPcOffset b h pc = pc - GetEntryPoint b h"

definition SetHasShouldDeoptimizeFlag ::
    "build \<Rightarrow> 'a::len OatQuickMethodHeader \<Rightarrow> abort + 'a OatQuickMethodHeader" where
  "SetHasShouldDeoptimizeFlag b h =
     (if kEnableDChecks b \<and> code_size h AND kShouldDeoptimizeMask \<noteq> 0
      then Inl DCHECK_failed
      else Inr (h\<lparr>code_size := code_size h OR kShouldDeoptimizeMask\<rparr>))"

definition HasShouldDeoptimizeFlag :: "'a::len OatQuickMethodHeader \<Rightarrow> bool" where
  "HasShouldDeoptimizeFlag h = (code_size h AND kShouldDeoptimizeMask \<noteq> 0)"

section \<open>Sample builds and headers\<close>

text \<open>
  A debug and a release build of a 32-bit ARM runtime, and a release build for 32-bit
  x86.
\<close>

definition debug_arm :: build where
  "debug_arm = \<lparr>kEnableDChecks = True, kRuntimeISA = kArm, kInstructionSetAlignment = 8\<rparr>"

definition release_arm :: build where
  "release_arm = \<lparr>kEnableDChecks = False, kRuntimeISA = kArm, kInstructionSetAlignment = 8\<rparr>"

definition release_x86 :: build where
  "release_x86 = \<lparr>kEnableDChecks = False, kRuntimeISA = kX86, kInstructionSetAlignment = 16\<rparr>"

text \<open>
  The header of the spec's scenario: code size \<open>0x100\<close>, info offset \<open>0x10\<close>, code
  starting at \<open>0x1000\<close>, so the header itself at \<open>0xFF8\<close>.
\<close>

definition scenario_header :: "32 OatQuickMethodHeader" where
  "scenario_header = \<lparr>this_ptr = 0xFF8, vmap_table_offset = 0x10, code_size = 0x100\<rparr>"

text \<open>What precedes a stub or trampoline: bytes \<open>0xFF\<close>.\<close>

definition stub_header :: "32 OatQuickMethodHeader" where
  "stub_header = \<lparr>this_ptr = 0xFF8, vmap_table_offset = 0xFFFFFFFF, code_size = 0xFFFFFFFF\<rparr>"

text \<open>A header whose 31 size bits are all set and whose deoptimize flag is clear.\<close>

definition largest_header :: "32 OatQuickMethodHeader" where
  "largest_header = \<lparr>this_ptr = 0xFF8, vmap_table_offset = 0x10, code_size = 0x7FFFFFFF\<rparr>"

text \<open>The scenario's header with the deoptimize flag set.\<close>

definition flagged_header :: "32 OatQuickMethodHeader" where
  "flagged_header = \<lparr>this_ptr = 0xFF8, vmap_table_offset = 0x10, code_size = 0x80000100\<rparr>"

text \<open>A header with no info blob, and one with an info offset but no code.\<close>

definition unoptimized_header :: "32 OatQuickMethodHeader" where
  "unoptimized_header = \<lparr>this_ptr = 0xFF8, vmap_table_offset = 0, code_size = 0x100\<rparr>"

definition empty_code_header :: "32 OatQuickMethodHeader" where
  "empty_code_header = \<lparr>this_ptr = 0xFF8, vmap_table_offset = 0x10, code_size = 0\<rparr>"

text \<open>A header whose code region would run over the end of a 32-bit address space.\<close>

definition wrapping_header :: "32 OatQuickMethodHeader" where
  "wrapping_header = \<lparr>this_ptr = 0xFFFFFEF8, vmap_table_offset = 0x10, code_size = 0x100\<rparr>"

section \<open>Facts about the two masks\<close>

lemma kCodeSizeMask_eq: "kCodeSizeMask = 0x7FFFFFFF"
  by (simp add: kCodeSizeMask_def kShouldDeoptimizeMask_def)

lemma kShouldDeoptimizeMask_exp: "kShouldDeoptimizeMask = 2 ^ 31"
  by (simp add: kShouldDeoptimizeMask_def)

lemma kShouldDeoptimizeMask_bit: "bit kShouldDeoptimizeMask n \<longleftrightarrow> n = 31"
  unfolding kShouldDeoptimizeMask_exp
  by (auto simp only: bit_exp_iff possible_bit_word len_bit0 len_num1 len_of_numeral_defs)

lemma or_and_not: "(x OR m) AND NOT m = x AND NOT (m :: 'a::len word)"
  by (auto simp: bit_eq_iff bit_simps)

lemma or_eq_ones: "x OR m = - 1 \<longleftrightarrow> x AND NOT m = NOT (m :: 'a::len word)"
  by (auto simp: bit_eq_iff bit_simps)

text \<open>Setting the flag bit leaves the 31 size bits as they are.\<close>

lemma set_flag_keeps_size:
  "(x OR kShouldDeoptimizeMask) AND kCodeSizeMask = x AND kCodeSizeMask"
  unfolding kCodeSizeMask_def by (rule or_and_not)

text \<open>Setting the flag bit gives the stub marker exactly when all 31 size bits are set.\<close>

lemma set_flag_sentinel:
  "x OR kShouldDeoptimizeMask = 0xFFFFFFFF \<longleftrightarrow> x AND kCodeSizeMask = 0x7FFFFFFF"
proof -
  have "x OR kShouldDeoptimizeMask = - 1 \<longleftrightarrow> x AND kCodeSizeMask = kCodeSizeMask"
    unfolding kCodeSizeMask_def by (rule or_eq_ones)
  moreover have "(0xFFFFFFFF :: uint32_t) = - 1"
    by simp
  ultimately show ?thesis
    by (simp only: kCodeSizeMask_eq)
qed

lemma flag_test_bit: "x AND kShouldDeoptimizeMask \<noteq> 0 \<longleftrightarrow> bit x 31"
proof
  assume "x AND kShouldDeoptimizeMask \<noteq> 0"
  then obtain n where "bit (x AND kShouldDeoptimizeMask) n"
    by (auto simp: bit_eq_iff [where ?'a = "32 word"])
  then show "bit x 31"
    by (auto simp: bit_and_iff kShouldDeoptimizeMask_bit)
next
  assume "bit x 31"
  then have "bit (x AND kShouldDeoptimizeMask) 31"
    by (simp add: bit_and_iff kShouldDeoptimizeMask_bit)
  then show "x AND kShouldDeoptimizeMask \<noteq> 0"
    by auto
qed

lemma flag_set_again: "bit x 31 \<Longrightarrow> x OR kShouldDeoptimizeMask = x"
  by (rule bit_eqI) (auto simp: bit_or_iff kShouldDeoptimizeMask_bit)

lemma masked_size_bound: "unat (x AND kCodeSizeMask) < 2 ^ 31"
proof -
  have "x AND kCodeSizeMask \<le> 0x7FFFFFFF"
    unfolding kCodeSizeMask_eq by (rule word_and_le1)
  then have "unat (x AND kCodeSizeMask) \<le> unat (0x7FFFFFFF :: uint32_t)"
    by (simp only: word_le_nat_alt)
  then show ?thesis by simp
qed

section \<open>The code size and the stub marker\<close>

text \<open>
  Claim C1, as amended. \<open>GetCodeSize()\<close> aborts exactly when the code-size field as
  stored, deoptimize bit included, equals \<open>0xFFFFFFFF\<close>; the abort is that of a
  \<open>CHECK\<close>, so it happens in every build. Otherwise the call returns the stored field
  with the deoptimize bit masked off, a value below \<open>2 ^ 31\<close>.
\<close>

theorem GetCodeSize_aborts_iff_raw_sentinel:
  "((\<exists>e. GetCodeSize h = Inl e) \<longleftrightarrow> code_size h = 0xFFFFFFFF)
   \<and> (code_size h = 0xFFFFFFFF \<longrightarrow> GetCodeSize h = Inl CHECK_failed)
   \<and> (code_size h \<noteq> 0xFFFFFFFF \<longrightarrow>
        GetCodeSize h = Inr (code_size h AND 0x7FFFFFFF)
        \<and> unat (code_size h AND 0x7FFFFFFF) < 2 ^ 31)"
  using masked_size_bound [of "code_size h"]
  by (simp add: GetCodeSize_def kCodeSizeMask_eq)

theorem GetCodeSize_aborts_iff_raw_sentinel_witness:
  "code_size stub_header = 0xFFFFFFFF
   \<and> GetCodeSize stub_header = Inl CHECK_failed
   \<and> code_size flagged_header \<noteq> 0xFFFFFFFF
   \<and> GetCodeSize flagged_header = Inr 0x100"
  using GetCodeSize_aborts_iff_raw_sentinel [of stub_header]
    GetCodeSize_aborts_iff_raw_sentinel [of flagged_header]
  by (simp add: stub_header_def flagged_header_def)

text \<open>
  Claim C1 as the spec states it compares the field after masking. Read with the
  32-bit all-ones value, it has no header abort, since no masked field equals
  \<open>0xFFFFFFFF\<close>; yet the stub header aborts. Read with the all-ones value of the 31
  size bits, it has the header with raw field \<open>0x7FFFFFFF\<close> abort, its masked field
  being the masked marker; yet that header returns \<open>0x7FFFFFFF\<close>.
\<close>

theorem GetCodeSize_masked_sentinel_counterexample:
  "GetCodeSize stub_header = Inl CHECK_failed
   \<and> code_size stub_header AND kCodeSizeMask \<noteq> 0xFFFFFFFF
   \<and> GetCodeSize largest_header = Inr 0x7FFFFFFF
   \<and> code_size largest_header AND kCodeSizeMask = 0xFFFFFFFF AND kCodeSizeMask"
  by (simp add: GetCodeSize_def stub_header_def largest_header_def kCodeSizeMask_eq)

section \<open>The deoptimize flag and the code size\<close>

text \<open>
  Claim C2, as amended. Take a header on which \<open>GetCodeSize()\<close> returns \<open>s\<close> and on
  which \<open>SetHasShouldDeoptimizeFlag()\<close> returns. If \<open>s\<close> is not \<open>0x7FFFFFFF\<close>, then
  \<open>GetCodeSize()\<close> still returns \<open>s\<close> afterwards. If \<open>s\<close> is \<open>0x7FFFFFFF\<close>, setting
  the flag turns the field into the stub marker \<open>0xFFFFFFFF\<close> and \<open>GetCodeSize()\<close>
  aborts afterwards. Clearing the low 31 bits of the code-size field never changes what
  \<open>HasShouldDeoptimizeFlag()\<close> returns.
\<close>

theorem SetHasShouldDeoptimizeFlag_keeps_code_size:
  "(GetCodeSize h = Inr s \<and> SetHasShouldDeoptimizeFlag b h = Inr h' \<longrightarrow>
      GetCodeSize h' = (if s = 0x7FFFFFFF then Inl CHECK_failed else Inr s))
   \<and> HasShouldDeoptimizeFlag (h\<lparr>code_size := code_size h AND NOT kCodeSizeMask\<rparr>)
       = HasShouldDeoptimizeFlag h"
proof -
  have "GetCodeSize h' = (if s = 0x7FFFFFFF then Inl CHECK_failed else Inr s)"
    if get: "GetCodeSize h = Inr s" and set: "SetHasShouldDeoptimizeFlag b h = Inr h'"
  proof -
    from get have s: "s = code_size h AND kCodeSizeMask"
      by (auto simp: GetCodeSize_def split: if_splits)
    from set have h': "code_size h' = code_size h OR kShouldDeoptimizeMask"
      by (auto simp: SetHasShouldDeoptimizeFlag_def split: if_splits)
    show ?thesis
      by (simp add: GetCodeSize_def h' s set_flag_keeps_size set_flag_sentinel)
  qed
  moreover have "HasShouldDeoptimizeFlag (h\<lparr>code_size := code_size h AND NOT kCodeSizeMask\<rparr>)
      = HasShouldDeoptimizeFlag h"
    by (simp add: HasShouldDeoptimizeFlag_def kCodeSizeMask_def)
  ultimately show ?thesis
    by blast
qed

theorem SetHasShouldDeoptimizeFlag_keeps_code_size_witness:
  "GetCodeSize scenario_header = Inr 0x100
   \<and> SetHasShouldDeoptimizeFlag debug_arm scenario_header = Inr flagged_header
   \<and> GetCodeSize flagged_header = Inr 0x100
   \<and> HasShouldDeoptimizeFlag (scenario_header\<lparr>code_size := 0\<rparr>)
       = HasShouldDeoptimizeFlag scenario_header"
proof -
  have g: "GetCodeSize scenario_header = Inr 0x100"
    by (simp add: GetCodeSize_def scenario_header_def kCodeSizeMask_eq)
  have f: "SetHasShouldDeoptimizeFlag debug_arm scenario_header = Inr flagged_header"
    by (simp add: SetHasShouldDeoptimizeFlag_def scenario_header_def flagged_header_def
        debug_arm_def kShouldDeoptimizeMask_def)
  note t = SetHasShouldDeoptimizeFlag_keeps_code_size
    [of scenario_header "0x100" debug_arm flagged_header]
  from t [THEN conjunct1] g f have 1: "GetCodeSize flagged_header = Inr 0x100"
    by simp
  from t [THEN conjunct2]
  have 2: "HasShouldDeoptimizeFlag (scenario_header\<lparr>code_size := 0\<rparr>)
      = HasShouldDeoptimizeFlag scenario_header"
    by (simp add: scenario_header_def kCodeSizeMask_eq)
  from g f 1 2 show ?thesis
    by simp
qed

text \<open>
  Claim C2 as the spec states it fails on the header whose 31 size bits are all set:
  \<open>GetCodeSize()\<close> returns \<open>0x7FFFFFFF\<close> on it, setting the flag succeeds (in the
  debug build too, the flag being clear), and \<open>GetCodeSize()\<close> aborts on the result.
\<close>

theorem SetHasShouldDeoptimizeFlag_starts_abort_counterexample:
  "GetCodeSize largest_header = Inr 0x7FFFFFFF
   \<and> SetHasShouldDeoptimizeFlag debug_arm largest_header
       = Inr (largest_header\<lparr>code_size := 0xFFFFFFFF\<rparr>)
   \<and> GetCodeSize (largest_header\<lparr>code_size := 0xFFFFFFFF\<rparr>) = Inl CHECK_failed"
  by (simp add: GetCodeSize_def SetHasShouldDeoptimizeFlag_def largest_header_def
      debug_arm_def kCodeSizeMask_eq kShouldDeoptimizeMask_def)

section \<open>Classification\<close>

text \<open>
  Claim C5. On a header on which \<open>GetCodeSize()\<close> returns \<open>s\<close>, \<open>IsOptimized()\<close>
  returns, and returns true exactly when \<open>s\<close> is nonzero and the info (vmap-table)
  offset is nonzero.
\<close>

theorem IsOptimized_iff:
  assumes "GetCodeSize h = Inr s"
  shows "IsOptimized h = Inr (s \<noteq> 0 \<and> vmap_table_offset h \<noteq> 0)"
  using assms by (simp add: IsOptimized_def)

theorem IsOptimized_iff_witness:
  "GetCodeSize scenario_header = Inr 0x100 \<and> IsOptimized scenario_header = Inr True
   \<and> GetCodeSize unoptimized_header = Inr 0x100 \<and> IsOptimized unoptimized_header = Inr False
   \<and> GetCodeSize empty_code_header = Inr 0 \<and> IsOptimized empty_code_header = Inr False"
proof -
  have a: "GetCodeSize scenario_header = Inr 0x100"
    and b: "GetCodeSize unoptimized_header = Inr 0x100"
    and c: "GetCodeSize empty_code_header = Inr 0"
    by (simp_all add: GetCodeSize_def scenario_header_def unoptimized_header_def
        empty_code_header_def kCodeSizeMask_eq)
  show ?thesis
    using a b c IsOptimized_iff [OF a] IsOptimized_iff [OF b] IsOptimized_iff [OF c]
    by (simp add: scenario_header_def unoptimized_header_def empty_code_header_def)
qed

section \<open>Code bounds\<close>

text \<open>A 32-bit size converted to a pointer-sized word is not truncated.\<close>

lemma unat_ucast_size:
  assumes "32 \<le> LENGTH('a::len)"
  shows "unat (ucast (s :: uint32_t) :: 'a word) = unat s"
proof -
  have "is_up (ucast :: uint32_t \<Rightarrow> 'a word)"
    using assms by (simp add: is_up)
  then have "uint (ucast s :: 'a word) = uint s"
    by (rule uint_up_ucast)
  then show ?thesis
    by (simp only: unat_eq_nat_uint)
qed

lemma ucast_size_not_ones:
  assumes "32 \<le> LENGTH('a::len)"
  shows "(ucast (x AND kCodeSizeMask) :: 'a word) \<noteq> - 1"
proof
  assume "(ucast (x AND kCodeSizeMask) :: 'a word) = - 1"
  then have "unat (ucast (x AND kCodeSizeMask) :: 'a word) = unat (- 1 :: 'a word)"
    by simp
  then have "unat (x AND kCodeSizeMask) = 2 ^ LENGTH('a) - 1"
    using assms by (simp add: unat_ucast_size unsigned_minus_1_eq_mask mask_eq_exp_minus_1)
  moreover have "(2::nat) ^ 32 \<le> 2 ^ LENGTH('a)"
    using assms by (rule power_increasing) simp
  ultimately show False
    using masked_size_bound [of x] by simp
qed

text \<open>
  The four boundary tests on a code region \<open>[C, C + S]\<close> that does not run over the end
  of the address space.
\<close>

lemma contains_bounds:
  fixes C :: "'a::len word"
  assumes len: "32 \<le> LENGTH('a)"
    and nowrap: "unat C + unat (x AND kCodeSizeMask) < 2 ^ LENGTH('a)"
  defines "S \<equiv> (ucast (x AND kCodeSizeMask) :: 'a word)"
  shows "C \<le> C + S"
    and "\<not> (C \<le> C - 1 \<and> C - 1 \<le> C + S)"
    and "\<not> (C \<le> C + S + 1 \<and> C + S + 1 \<le> C + S)"
proof -
  have S: "unat S = unat (x AND kCodeSizeMask)"
    unfolding S_def using len by (rule unat_ucast_size)
  have ones: "S \<noteq> - 1"
    unfolding S_def using len by (rule ucast_size_not_ones)
  show "C \<le> C + S"
    using nowrap by (simp add: no_plus_overflow_unat_size word_size S)
  show "\<not> (C \<le> C - 1 \<and> C - 1 \<le> C + S)"
  proof
    assume a: "C \<le> C - 1 \<and> C - 1 \<le> C + S"
    then have "C = 0"
      by (simp add: less_eq_dec_self_iff_eq)
    with a have "S = - 1"
      by (simp add: word_order.extremum_unique)
    with ones show False by simp
  qed
  show "\<not> (C \<le> C + S + 1 \<and> C + S + 1 \<le> C + S)"
  proof
    assume a: "C \<le> C + S + 1 \<and> C + S + 1 \<le> C + S"
    then have e: "C + S = - 1"
      by (simp add: inc_less_eq_self_iff_eq)
    with a have "C = 0"
      by simp
    with e have "S = - 1"
      by simp
    with ones show False by simp
  qed
qed

text \<open>
  Claim C3, as amended. Take a header whose stored code-size field is not the stub
  marker \<open>0xFFFFFFFF\<close>, with masked code size \<open>S\<close> and adjusted code start \<open>C\<close> (the
  code address plus 1 when the runtime instruction set is ARM, the code address
  otherwise). Then \<open>Contains(pc)\<close> returns, and returns true exactly when
  \<open>C \<le> pc \<le> C + S\<close> in pointer arithmetic. If moreover pointers have at least 32 bits
  and \<open>C + S\<close> does not run over the end of the address space, then \<open>Contains(C)\<close> and
  \<open>Contains(C + S)\<close> are true and \<open>Contains(C - 1)\<close> and \<open>Contains(C + S + 1)\<close> are
  false.
\<close>

theorem Contains_closed_interval:
  fixes h :: "'a::len OatQuickMethodHeader" and b :: build
  defines "C \<equiv> code_start b h"
    and "S \<equiv> code_size h AND kCodeSizeMask"
  assumes live: "code_size h \<noteq> 0xFFFFFFFF"
  shows "Contains b h pc = Inr (C \<le> pc \<and> pc \<le> C + ucast S)
    \<and> (32 \<le> LENGTH('a) \<and> unat C + unat S < 2 ^ LENGTH('a) \<longrightarrow>
         Contains b h C = Inr True
         \<and> Contains b h (C + ucast S) = Inr True
         \<and> Contains b h (C - 1) = Inr False
         \<and> Contains b h (C + ucast S + 1) = Inr False)"
proof -
  have gen: "Contains b h q = Inr (C \<le> q \<and> q \<le> C + ucast S)" for q
    using live by (simp add: Contains_def GetCodeSize_def C_def S_def)
  have "Contains b h C = Inr True
      \<and> Contains b h (C + ucast S) = Inr True
      \<and> Contains b h (C - 1) = Inr False
      \<and> Contains b h (C + ucast S + 1) = Inr False"
    if "32 \<le> LENGTH('a)" and "unat C + unat S < 2 ^ LENGTH('a)"
    using contains_bounds [OF that [unfolded S_def]]
    by (simp add: gen S_def)
  with gen [of pc] show ?thesis
    by blast
qed

theorem Contains_closed_interval_witness:
  "code_size scenario_header \<noteq> 0xFFFFFFFF
   \<and> code_start debug_arm scenario_header = 0x1001
   \<and> code_size scenario_header AND kCodeSizeMask = 0x100
   \<and> (32::nat) \<le> LENGTH(32)
   \<and> unat (0x1001 :: 32 word) + unat (0x100 :: uint32_t) < 2 ^ LENGTH(32)
   \<and> Contains debug_arm scenario_header 0x1001 = Inr True
   \<and> Contains debug_arm scenario_header 0x1101 = Inr True
   \<and> Contains debug_arm scenario_header 0x1000 = Inr False
   \<and> Contains debug_arm scenario_header 0x1102 = Inr False"
proof -
  have l: "code_size scenario_header \<noteq> 0xFFFFFFFF"
    by (simp add: scenario_header_def)
  have c: "code_start debug_arm scenario_header = 0x1001"
    by (simp add: code_start_def code_def OFFSETOF_MEMBER_code_def debug_arm_def
        scenario_header_def)
  have s: "code_size scenario_header AND kCodeSizeMask = 0x100"
    by (simp add: scenario_header_def kCodeSizeMask_eq)
  show ?thesis
    using l Contains_closed_interval [OF l, of debug_arm 0]
    by (simp add: c s)
qed

text \<open>
  Claim C3 as the spec states it speaks of every header. On the stub header the test
  of the adjusted code start itself does not return true: it aborts.
\<close>

theorem Contains_stub_counterexample:
  "Contains debug_arm stub_header (code_start debug_arm stub_header) = Inl CHECK_failed
   \<and> Contains debug_arm stub_header (code_start debug_arm stub_header) \<noteq> Inr True"
  by (simp add: Contains_def GetCodeSize_def stub_header_def)

text \<open>
  Why the boundary facts ask that \<open>C + S\<close> stay inside the address space: with the code
  at \<open>0xFFFFFF00\<close> and a size of \<open>0x100\<close> the upper bound wraps to 0, and the test
  of the code start itself returns false.
\<close>

lemma Contains_wraps:
  "code_start release_x86 wrapping_header = 0xFFFFFF00
   \<and> Contains release_x86 wrapping_header 0xFFFFFF00 = Inr False"
  by (simp add: Contains_def GetCodeSize_def code_start_def code_def OFFSETOF_MEMBER_code_def
      wrapping_header_def release_x86_def kCodeSizeMask_eq)

section \<open>What else aborts on a stub\<close>

text \<open>
  Claim C9, as amended. On a header whose stored code-size field is \<open>0xFFFFFFFF\<close>,
  \<open>GetCodeSize()\<close> and \<open>IsOptimized()\<close> abort, and \<open>Contains(pc)\<close> aborts for every
  \<open>pc\<close> at or above the adjusted code start; for a \<open>pc\<close> below it, \<open>Contains(pc)\<close>
  returns false without asking for the code size.
\<close>

theorem stub_aborts:
  assumes "code_size h = 0xFFFFFFFF"
  shows "GetCodeSize h = Inl CHECK_failed
    \<and> IsOptimized h = Inl CHECK_failed
    \<and> Contains b h pc = (if code_start b h \<le> pc then Inl CHECK_failed else Inr False)"
  using assms by (simp add: GetCodeSize_def IsOptimized_def Contains_def)

theorem stub_aborts_witness:
  "code_size stub_header = 0xFFFFFFFF
   \<and> GetCodeSize stub_header = Inl CHECK_failed
   \<and> IsOptimized stub_header = Inl CHECK_failed
   \<and> Contains debug_arm stub_header 0x1001 = Inl CHECK_failed
   \<and> Contains debug_arm stub_header 0x1000 = Inr False"
proof -
  have s: "code_size stub_header = 0xFFFFFFFF"
    by (simp add: stub_header_def)
  have c: "code_start debug_arm stub_header = 0x1001"
    by (simp add: code_start_def code_def OFFSETOF_MEMBER_code_def debug_arm_def
        stub_header_def)
  show ?thesis
    using s stub_aborts [OF s, of debug_arm "0x1001"] stub_aborts [OF s, of debug_arm "0x1000"]
    by (simp add: c)
qed

text \<open>
  Claim C9 as stated has \<open>Contains(pc)\<close> abort for every \<open>pc\<close>. For the stub header
  with its code at \<open>0x1000\<close>, the test of \<open>pc = 0\<close> returns false.
\<close>

theorem Contains_below_stub_counterexample:
  "code_size stub_header = 0xFFFFFFFF
   \<and> Contains release_arm stub_header 0 = Inr False
   \<and> Contains debug_arm stub_header 0 = Inr False"
  by (simp add: Contains_def code_start_def code_def OFFSETOF_MEMBER_code_def
      stub_header_def debug_arm_def release_arm_def)

section \<open>Entry points\<close>

lemma even_unat_word: "even (unat (x :: 'a::len word)) \<longleftrightarrow> even x"
  by (metis even_of_nat mod_by_0 unat_mod_distrib word_arith_nat_mod)

lemma strip_tag_even: "even (p :: 'a::len word) \<Longrightarrow> p AND NOT 1 = p"
  by (rule bit_eqI) (auto simp del: not_one_eq simp add: bit_simps bit_0)

lemma tag_strip: "(p OR 1) AND NOT 1 = p AND NOT (1 :: 'a::len word)"
  by (rule bit_eqI) (auto simp del: not_one_eq simp add: bit_simps bit_0)

lemma EntryPointToCodePointer_even:
  "even (p :: 'a::len word) \<Longrightarrow> EntryPointToCodePointer p = p"
  unfolding EntryPointToCodePointer_def by (rule strip_tag_even)

lemma EntryPointToCodePointer_tagged:
  "EntryPointToCodePointer (p OR 1) = EntryPointToCodePointer (p :: 'a::len word)"
  unfolding EntryPointToCodePointer_def by (rule tag_strip)

lemma tag_even: "even (p :: 'a::len word) \<Longrightarrow> p OR 1 = p + 1"
  by (simp add: or_one_eq)

lemma aligned_even:
  assumes "even n" and "IsAlignedParam (x :: 'a::len word) n"
  shows "even x"
proof -
  from assms have "even (unat x)"
    unfolding IsAlignedParam_def by (rule dvd_trans)
  then show ?thesis
    by (simp only: even_unat_word)
qed

text \<open>A code pointer that passes the alignment test of \<open>FromCodePointer\<close> is even.\<close>

lemma valid_code_pointer_even:
  assumes "even n"
    and "IsAlignedParam (p :: 'a::len word) n \<or> IsAlignedParam (p - OFFSETOF_MEMBER_code) n"
  shows "even p"
proof -
  from assms have "even p \<or> even (p - 8)"
    unfolding OFFSETOF_MEMBER_code_def by (auto dest: aligned_even)
  then show ?thesis by simp
qed

text \<open>The class is declared \<open>PACKED(4)\<close>; a header at a 4-byte aligned address has an
  even code start.\<close>

lemma aligned_header_code_even:
  assumes "IsAlignedParam (this_ptr h) 4"
  shows "even (code h)"
proof -
  have "even (4 :: nat)" by simp
  then have "even (this_ptr h)"
    using assms by (rule aligned_even)
  then show ?thesis
    by (simp add: code_def OFFSETOF_MEMBER_code_def)
qed

lemma code_of_header_at: "this_ptr h = p - OFFSETOF_MEMBER_code \<Longrightarrow> code h = p"
  by (simp add: code_def)

text \<open>
  Claim C4. Take a build whose instruction-set alignment is even, and a code pointer
  \<open>p\<close> that is valid, that is, passes the test \<open>FromCodePointer\<close> asserts: \<open>p\<close> or
  \<open>p\<close> minus the header size is a multiple of that alignment. Then \<open>FromCodePointer(p)\<close>
  returns the address 8 bytes below \<open>p\<close>; the entry point of the header there is \<open>p\<close>
  itself, with the low bit set exactly on ARM; and \<open>FromEntryPoint\<close> of that entry point
  returns the same header address, in debug and release builds alike.
\<close>

theorem FromEntryPoint_GetEntryPoint_roundtrip:
  fixes p :: "'a::len word"
  assumes al: "even (kInstructionSetAlignment b)"
    and valid: "IsAlignedParam p (kInstructionSetAlignment b)
      \<or> IsAlignedParam (p - OFFSETOF_MEMBER_code) (kInstructionSetAlignment b)"
  shows "FromCodePointer b p = Inr (p - OFFSETOF_MEMBER_code)
    \<and> (\<forall>h. FromCodePointer b p = Inr (this_ptr h) \<longrightarrow>
          GetEntryPoint b h = (if kRuntimeISA b = kArm then p OR 1 else p)
          \<and> FromEntryPoint b (GetEntryPoint b h) = FromCodePointer b p)"
proof -
  have ev: "even p"
    using al valid by (rule valid_code_pointer_even)
  have loc: "FromCodePointer b p = Inr (p - OFFSETOF_MEMBER_code)"
    using valid by (auto simp: FromCodePointer_def Let_def)
  have strip: "EntryPointToCodePointer (if kRuntimeISA b = kArm then p OR 1 else p) = p"
    using ev by (simp add: EntryPointToCodePointer_tagged EntryPointToCodePointer_even)
  have at: "GetEntryPoint b h = (if kRuntimeISA b = kArm then p OR 1 else p)
      \<and> FromEntryPoint b (GetEntryPoint b h) = FromCodePointer b p"
    if "this_ptr h = p - OFFSETOF_MEMBER_code" for h :: "'a OatQuickMethodHeader"
  proof -
    have entry: "GetEntryPoint b h = (if kRuntimeISA b = kArm then p OR 1 else p)"
      using that by (simp add: GetEntryPoint_def code_of_header_at)
    show ?thesis
      unfolding FromEntryPoint_def entry strip using entry by simp
  qed
  have "\<forall>h :: 'a OatQuickMethodHeader. FromCodePointer b p = Inr (this_ptr h) \<longrightarrow>
      GetEntryPoint b h = (if kRuntimeISA b = kArm then p OR 1 else p)
      \<and> FromEntryPoint b (GetEntryPoint b h) = FromCodePointer b p"
  proof (intro allI impI)
    fix h :: "'a OatQuickMethodHeader"
    assume "FromCodePointer b p = Inr (this_ptr h)"
    with loc have "this_ptr h = p - OFFSETOF_MEMBER_code"
      by simp
    then show "GetEntryPoint b h = (if kRuntimeISA b = kArm then p OR 1 else p)
      \<and> FromEntryPoint b (GetEntryPoint b h) = FromCodePointer b p"
      by (rule at)
  qed
  with loc show ?thesis ..
qed

theorem FromEntryPoint_GetEntryPoint_roundtrip_witness:
  "even (kInstructionSetAlignment debug_arm)
   \<and> IsAlignedParam (0x1000 :: 32 word) (kInstructionSetAlignment debug_arm)
   \<and> FromCodePointer debug_arm (0x1000 :: 32 word) = Inr (this_ptr scenario_header)
   \<and> GetEntryPoint debug_arm scenario_header = 0x1001
   \<and> FromEntryPoint debug_arm (0x1001 :: 32 word) = Inr 0xFF8"
proof -
  have al: "even (kInstructionSetAlignment debug_arm)"
    by (simp add: debug_arm_def)
  have a: "IsAlignedParam (0x1000 :: 32 word) (kInstructionSetAlignment debug_arm)"
    by (simp add: IsAlignedParam_def debug_arm_def)
  have k: "kRuntimeISA debug_arm = kArm"
    by (simp add: debug_arm_def)
  have t: "this_ptr scenario_header = 0xFF8"
    by (simp add: scenario_header_def)
  from a have v: "IsAlignedParam (0x1000 :: 32 word) (kInstructionSetAlignment debug_arm)
      \<or> IsAlignedParam (0x1000 - OFFSETOF_MEMBER_code :: 32 word)
          (kInstructionSetAlignment debug_arm)" ..
  note r = FromEntryPoint_GetEntryPoint_roundtrip [OF al v]
  from r have loc: "FromCodePointer debug_arm (0x1000 :: 32 word) = Inr 0xFF8"
    by (simp add: OFFSETOF_MEMBER_code_def)
  from r [THEN conjunct2, THEN spec, of scenario_header]
  have "FromCodePointer debug_arm (0x1000 :: 32 word) = Inr (this_ptr scenario_header)
      \<longrightarrow> GetEntryPoint debug_arm scenario_header = 0x1001
        \<and> FromEntryPoint debug_arm (GetEntryPoint debug_arm scenario_header)
            = FromCodePointer debug_arm 0x1000"
    by (auto simp: k)
  with loc have "GetEntryPoint debug_arm scenario_header = 0x1001
      \<and> FromEntryPoint debug_arm (0x1001 :: 32 word) = Inr 0xFF8"
    by (auto simp: t)
  with al a loc show ?thesis
    by (simp add: t)
qed

text \<open>
  Claim C7. \<open>NativeQuickPcOffset(pc)\<close> is \<open>pc\<close> minus the entry point, and on ARM the
  entry point is the code start with the low bit set. The code start of a header is
  even (the class is declared \<open>PACKED(4)\<close>, and \<open>FromCodePointer\<close> asserts the alignment
  of what it locates), so on ARM the offset is one less than \<open>pc\<close> minus the code start;
  on every other instruction set it is \<open>pc\<close> minus the code start.
\<close>

theorem NativeQuickPcOffset_from_entry_point:
  "NativeQuickPcOffset b h pc = pc - GetEntryPoint b h
   \<and> (kRuntimeISA b = kArm \<longrightarrow> GetEntryPoint b h = code h OR 1)
   \<and> (kRuntimeISA b = kArm \<and> even (code h) \<longrightarrow>
        NativeQuickPcOffset b h pc = pc - code h - 1)
   \<and> (kRuntimeISA b \<noteq> kArm \<longrightarrow> NativeQuickPcOffset b h pc = pc - code h)"
  by (simp add: NativeQuickPcOffset_def GetEntryPoint_def tag_even)

theorem NativeQuickPcOffset_from_entry_point_witness:
  "kRuntimeISA debug_arm = kArm
   \<and> code scenario_header = 0x1000
   \<and> even (code scenario_header)
   \<and> GetEntryPoint debug_arm scenario_header = 0x1001
   \<and> NativeQuickPcOffset debug_arm scenario_header 0x1041 = 0x40
   \<and> kRuntimeISA release_x86 \<noteq> kArm
   \<and> NativeQuickPcOffset release_x86 scenario_header 0x1041 = 0x41"
proof -
  have k: "kRuntimeISA debug_arm = kArm" "kRuntimeISA release_x86 \<noteq> kArm"
    by (simp_all add: debug_arm_def release_x86_def)
  have c: "code scenario_header = 0x1000"
    by (simp add: code_def OFFSETOF_MEMBER_code_def scenario_header_def)
  note arm = NativeQuickPcOffset_from_entry_point [of debug_arm scenario_header "0x1041"]
  note x86 = NativeQuickPcOffset_from_entry_point [of release_x86 scenario_header "0x1041"]
  from arm [THEN conjunct2, THEN conjunct1]
  have e: "GetEntryPoint debug_arm scenario_header = 0x1001"
    by (simp add: k c)
  from arm [THEN conjunct2, THEN conjunct2, THEN conjunct1]
  have o: "NativeQuickPcOffset debug_arm scenario_header 0x1041 = 0x40"
    by (simp add: k c)
  from x86 [THEN conjunct2, THEN conjunct2, THEN conjunct2]
  have o': "NativeQuickPcOffset release_x86 scenario_header 0x1041 = 0x41"
    by (simp add: k c)
  from k c e o o' show ?thesis
    by simp
qed

section \<open>The info blob\<close>

text \<open>
  Claim C6, as amended. When \<open>IsOptimized()\<close> holds, both overloads of
  \<open>GetOptimizedCodeInfoPtr()\<close> return the code start minus the info offset. When
  \<open>IsOptimized()\<close> is false, both abort in a build with \<open>DCHECK\<close>s enabled. In a build
  with \<open>DCHECK\<close>s disabled both return the code start minus the info offset for every
  header, without asking \<open>IsOptimized()\<close>.
\<close>

theorem GetOptimizedCodeInfoPtr_gated_in_debug:
  "(IsOptimized h = Inr True \<longrightarrow>
      GetOptimizedCodeInfoPtr b h = Inr (code h - ucast (vmap_table_offset h))
      \<and> GetOptimizedCodeInfoPtr_const b h = Inr (code h - ucast (vmap_table_offset h)))
   \<and> (kEnableDChecks b \<and> IsOptimized h = Inr False \<longrightarrow>
      GetOptimizedCodeInfoPtr b h = Inl DCHECK_failed
      \<and> GetOptimizedCodeInfoPtr_const b h = Inl DCHECK_failed)
   \<and> (\<not> kEnableDChecks b \<longrightarrow>
      GetOptimizedCodeInfoPtr b h = Inr (code h - ucast (vmap_table_offset h))
      \<and> GetOptimizedCodeInfoPtr_const b h = Inr (code h - ucast (vmap_table_offset h)))"
  by (simp add: GetOptimizedCodeInfoPtr_def GetOptimizedCodeInfoPtr_const_def
      DCHECK_IsOptimized_def)

theorem GetOptimizedCodeInfoPtr_gated_in_debug_witness:
  "IsOptimized scenario_header = Inr True
   \<and> GetOptimizedCodeInfoPtr debug_arm scenario_header = Inr 0xFF0
   \<and> GetOptimizedCodeInfoPtr_const debug_arm scenario_header = Inr 0xFF0
   \<and> kEnableDChecks debug_arm
   \<and> IsOptimized unoptimized_header = Inr False
   \<and> GetOptimizedCodeInfoPtr debug_arm unoptimized_header = Inl DCHECK_failed
   \<and> GetOptimizedCodeInfoPtr_const debug_arm unoptimized_header = Inl DCHECK_failed
   \<and> \<not> kEnableDChecks release_arm
   \<and> GetOptimizedCodeInfoPtr release_arm scenario_header = Inr 0xFF0
   \<and> GetOptimizedCodeInfoPtr_const release_arm scenario_header = Inr 0xFF0"
proof -
  have o: "IsOptimized scenario_header = Inr True"
    and u: "IsOptimized unoptimized_header = Inr False"
    by (simp_all add: IsOptimized_def GetCodeSize_def scenario_header_def
        unoptimized_header_def kCodeSizeMask_eq)
  have d: "kEnableDChecks debug_arm" "\<not> kEnableDChecks release_arm"
    by (simp_all add: debug_arm_def release_arm_def)
  have a: "code scenario_header - ucast (vmap_table_offset scenario_header) = 0xFF0"
    by (simp add: code_def OFFSETOF_MEMBER_code_def scenario_header_def)
  note dbg = GetOptimizedCodeInfoPtr_gated_in_debug [of scenario_header debug_arm]
  note dbg' = GetOptimizedCodeInfoPtr_gated_in_debug [of unoptimized_header debug_arm]
  note rel = GetOptimizedCodeInfoPtr_gated_in_debug [of scenario_header release_arm]
  from dbg [THEN conjunct1] o a
  have 1: "GetOptimizedCodeInfoPtr debug_arm scenario_header = Inr 0xFF0
      \<and> GetOptimizedCodeInfoPtr_const debug_arm scenario_header = Inr 0xFF0"
    by simp
  from dbg' [THEN conjunct2, THEN conjunct1] d u
  have 2: "GetOptimizedCodeInfoPtr debug_arm unoptimized_header = Inl DCHECK_failed
      \<and> GetOptimizedCodeInfoPtr_const debug_arm unoptimized_header = Inl DCHECK_failed"
    by simp
  from rel [THEN conjunct2, THEN conjunct2] d a
  have 3: "GetOptimizedCodeInfoPtr release_arm scenario_header = Inr 0xFF0
      \<and> GetOptimizedCodeInfoPtr_const release_arm scenario_header = Inr 0xFF0"
    by simp
  from o u d 1 2 3 show ?thesis
    by simp
qed

text \<open>
  Claim C6 as the spec states it has the call abort whenever \<open>IsOptimized()\<close> is false.
  In a release build the header without info blob gets a pointer back from both
  overloads: its own code start.
\<close>

theorem GetOptimizedCodeInfoPtr_release_counterexample:
  "IsOptimized unoptimized_header = Inr False
   \<and> GetOptimizedCodeInfoPtr release_arm unoptimized_header = Inr 0x1000
   \<and> GetOptimizedCodeInfoPtr_const release_arm unoptimized_header = Inr 0x1000"
  by (simp add: IsOptimized_def GetCodeSize_def GetOptimizedCodeInfoPtr_def
      GetOptimizedCodeInfoPtr_const_def DCHECK_IsOptimized_def code_def
      OFFSETOF_MEMBER_code_def unoptimized_header_def release_arm_def kCodeSizeMask_eq)

text \<open>
  Claim C10. \<open>GetVmapTable()\<close> aborts whenever \<open>IsOptimized()\<close> holds, in every build.
  When \<open>IsOptimized()\<close> is false it returns the null pointer if the info offset is zero,
  and the code start minus the info offset otherwise.
\<close>

theorem GetVmapTable_unoptimized_only:
  "(IsOptimized h = Inr True \<longrightarrow> GetVmapTable h = Inl CHECK_failed)
   \<and> (IsOptimized h = Inr False \<longrightarrow>
        GetVmapTable h = Inr (if vmap_table_offset h = 0 then 0
                              else code h - ucast (vmap_table_offset h)))"
  by (simp add: GetVmapTable_def)

theorem GetVmapTable_unoptimized_only_witness:
  "IsOptimized scenario_header = Inr True
   \<and> GetVmapTable scenario_header = Inl CHECK_failed
   \<and> IsOptimized unoptimized_header = Inr False
   \<and> GetVmapTable unoptimized_header = Inr 0
   \<and> IsOptimized empty_code_header = Inr False
   \<and> vmap_table_offset empty_code_header \<noteq> 0
   \<and> GetVmapTable empty_code_header = Inr 0xFF0"
proof -
  have o: "IsOptimized scenario_header = Inr True"
    and u: "IsOptimized unoptimized_header = Inr False"
    and e: "IsOptimized empty_code_header = Inr False"
    by (simp_all add: IsOptimized_def GetCodeSize_def scenario_header_def
        unoptimized_header_def empty_code_header_def kCodeSizeMask_eq)
  have v: "vmap_table_offset unoptimized_header = 0"
    "vmap_table_offset empty_code_header \<noteq> 0"
    by (simp_all add: unoptimized_header_def empty_code_header_def)
  have a: "code empty_code_header - ucast (vmap_table_offset empty_code_header) = 0xFF0"
    by (simp add: code_def OFFSETOF_MEMBER_code_def empty_code_header_def)
  from GetVmapTable_unoptimized_only [of scenario_header, THEN conjunct1] o
  have 1: "GetVmapTable scenario_header = Inl CHECK_failed"
    by simp
  from GetVmapTable_unoptimized_only [of unoptimized_header, THEN conjunct2] u v
  have 2: "GetVmapTable unoptimized_header = Inr 0"
    by simp
  from GetVmapTable_unoptimized_only [of empty_code_header, THEN conjunct2] e v a
  have 3: "GetVmapTable empty_code_header = Inr 0xFF0"
    by simp
  from o u e v 1 2 3 show ?thesis
    by simp
qed

section \<open>Setting the deoptimize flag twice\<close>

text \<open>
  Claim C8, as amended. On a header whose deoptimize flag is already set,
  \<open>SetHasShouldDeoptimizeFlag()\<close> aborts in a build with \<open>DCHECK\<close>s enabled; in a build
  with \<open>DCHECK\<close>s disabled it returns and leaves the header as it was.
  \<open>HasShouldDeoptimizeFlag()\<close> is the test of bit 31 of the code-size field and returns
  on every header.
\<close>

theorem SetHasShouldDeoptimizeFlag_twice:
  "(HasShouldDeoptimizeFlag h \<longrightarrow>
      SetHasShouldDeoptimizeFlag b h
        = (if kEnableDChecks b then Inl DCHECK_failed else Inr h))
   \<and> (HasShouldDeoptimizeFlag h \<longleftrightarrow> bit (code_size h) 31)"
  by (simp add: HasShouldDeoptimizeFlag_def SetHasShouldDeoptimizeFlag_def
      flag_test_bit flag_set_again)

theorem SetHasShouldDeoptimizeFlag_twice_witness:
  "HasShouldDeoptimizeFlag flagged_header
   \<and> SetHasShouldDeoptimizeFlag debug_arm flagged_header = Inl DCHECK_failed
   \<and> SetHasShouldDeoptimizeFlag release_arm flagged_header = Inr flagged_header
   \<and> \<not> HasShouldDeoptimizeFlag scenario_header"
proof -
  have f: "HasShouldDeoptimizeFlag flagged_header"
    and n: "\<not> HasShouldDeoptimizeFlag scenario_header"
    by (simp_all add: HasShouldDeoptimizeFlag_def flagged_header_def scenario_header_def
        kShouldDeoptimizeMask_def)
  have d: "kEnableDChecks debug_arm" "\<not> kEnableDChecks release_arm"
    by (simp_all add: debug_arm_def release_arm_def)
  from SetHasShouldDeoptimizeFlag_twice [of flagged_header debug_arm, THEN conjunct1] f d
  have 1: "SetHasShouldDeoptimizeFlag debug_arm flagged_header = Inl DCHECK_failed"
    by simp
  from SetHasShouldDeoptimizeFlag_twice [of flagged_header release_arm, THEN conjunct1] f d
  have 2: "SetHasShouldDeoptimizeFlag release_arm flagged_header = Inr flagged_header"
    by simp
  from f n 1 2 show ?thesis
    by simp
qed

text \<open>
  Claim C8 as the spec states it has the second call abort, never leave the header
  unchanged. In a release build the second call returns the header as it was.
\<close>

theorem SetHasShouldDeoptimizeFlag_release_counterexample:
  "HasShouldDeoptimizeFlag flagged_header
   \<and> SetHasShouldDeoptimizeFlag release_arm flagged_header = Inr flagged_header"
  by (simp add: HasShouldDeoptimizeFlag_def SetHasShouldDeoptimizeFlag_def
      flagged_header_def release_arm_def kShouldDeoptimizeMask_def)

end
